theory Spec2Isabelle
  imports Main
begin

section \<open>Data model (src/server/models.js)\<close>

text \<open>
  The three Mongoose schemas of \<^verbatim>\<open>models.js\<close>. An ObjectId is modelled by its string
  rendering (the handlers compare \<^verbatim>\<open>gig.ownerId.toString()\<close> with \<^verbatim>\<open>req.user.id\<close>);
  a JavaScript Number that is only stored and passed on (budget, price) is an \<open>int\<close>;
  \<^verbatim>\<open>createdAt\<close> is a timestamp. A collection is the list of its documents in
  insertion order, each carrying its \<^verbatim>\<open>_id\<close>.
\<close>

type_synonym oid = string

datatype gstatus = Open | Assigned

datatype bstatus = Pending | Hired | Rejected

record gig =
  gig_id :: oid
  title :: string
  description :: string
  budget :: int
  ownerId :: oid
  ownerName :: string
  gig_status :: gstatus
  gig_createdAt :: nat

record bid =
  bid_id :: oid
  bid_gigId :: oid
  freelancerId :: oid
  freelancerName :: string
  message :: string
  price :: int
  bid_status :: bstatus
  bid_createdAt :: nat

record store =
  gigs :: "gig list"
  bids :: "bid list"

text \<open>The identity the \<^verbatim>\<open>authenticateToken\<close> middleware puts into \<^verbatim>\<open>req.user\<close>
  (the JWT payload \<^verbatim>\<open>{id, name}\<close>).\<close>

record req_user =
  user_id :: oid
  user_name :: string

section \<open>Errors, responses, events\<close>

text \<open>
  Every awaited database call of a handler can throw (store unavailable, cast or
  validation error, failed commit), and so can the socket.io emit. \<open>db_step\<close> names
  the calls; a handler takes \<open>fault :: db_step option\<close>, the call that throws in this
  run (\<open>None\<close>: none does).
\<close>

datatype db_step =
  FindBid | FindGig | SaveGig | UpdateManyBids | UpdateBid | Commit | Emit
  | FindOneBid | InsertBid

text \<open>
  The errors the handlers raise or answer with, named after their messages:
  \<^verbatim>\<open>'Bid not found'\<close>, \<^verbatim>\<open>'Unauthorized or Gig not found'\<close>, \<^verbatim>\<open>'Gig is not open'\<close>,
  \<^verbatim>\<open>'Already bid on this gig'\<close>, and the driver's own error of a throwing database call.
\<close>

datatype error =
  BidNotFound | UnauthorizedOrGigNotFound | GigNotOpen | AlreadyBid | DbError db_step

text \<open>
  \<^verbatim>\<open>res.json(x)\<close> is \<open>Ok200 x\<close>; \<^verbatim>\<open>res.status(c).json({message})\<close> is \<open>Err c e\<close>.
  \<open>NoResponse\<close>: the handler threw out of its \<^verbatim>\<open>catch\<close> block before it answered;
  the promise of the async handler rejects and the caller is sent nothing.
\<close>

datatype 'a response = Ok200 'a | Err nat error | NoResponse

text \<open>A JSON object literal is the list of its keys and values, in the order written.\<close>

datatype jsval = JStr string | JNum int

record event =
  room :: string
  event_name :: string
  payload :: "(string \<times> jsval) list"

section \<open>The persistence calls the handlers make\<close>

definition findById_gig :: "oid \<Rightarrow> gig list \<Rightarrow> gig option" where
  "findById_gig i gs = find (\<lambda>g. gig_id g = i) gs"

definition findById_bid :: "oid \<Rightarrow> bid list \<Rightarrow> bid option" where
  "findById_bid i bs = find (\<lambda>b. bid_id b = i) bs"

text \<open>\<^verbatim>\<open>Bid.findOne({ gigId, freelancerId })\<close>\<close>

definition findOne_bid :: "oid \<Rightarrow> oid \<Rightarrow> bid list \<Rightarrow> bid option" where
  "findOne_bid g f bs = find (\<lambda>b. bid_gigId b = g \<and> freelancerId b = f) bs"

text \<open>\<^verbatim>\<open>gig.save()\<close>: writes the document back under its \<^verbatim>\<open>_id\<close>.\<close>

fun save_gig :: "gig \<Rightarrow> gig list \<Rightarrow> gig list" where
  "save_gig g [] = []"
| "save_gig g (x # xs) = (if gig_id x = gig_id g then g # xs else x # save_gig g xs)"

text \<open>\<^verbatim>\<open>Bid.updateMany({ gigId }, { status })\<close>: every bid of the gig.\<close>

definition updateMany_bids :: "oid \<Rightarrow> bstatus \<Rightarrow> bid list \<Rightarrow> bid list" where
  "updateMany_bids g st bs =
     map (\<lambda>b. if bid_gigId b = g then b\<lparr>bid_status := st\<rparr> else b) bs"

text \<open>\<^verbatim>\<open>Bid.findByIdAndUpdate(bidId, { status })\<close>: the document with that
  \<^verbatim>\<open>_id\<close>, if any; no document, no write and no error.\<close>

fun findByIdAndUpdate_bid :: "oid \<Rightarrow> bstatus \<Rightarrow> bid list \<Rightarrow> bid list" where
  "findByIdAndUpdate_bid i st [] = []"
| "findByIdAndUpdate_bid i st (b # bs) =
     (if bid_id b = i then b\<lparr>bid_status := st\<rparr> # bs
      else b # findByIdAndUpdate_bid i st bs)"

section \<open>POST /api/bids (src/server/index.js, lines 124-140)\<close>

record bid_body =
  body_gigId :: oid
  body_message :: string
  body_price :: int

text \<open>
  \<open>newId\<close> is the \<^verbatim>\<open>_id\<close> the insert gives the document and \<open>now\<close> the clock;
  an insert under an \<^verbatim>\<open>_id\<close> the collection already holds is the driver's
  duplicate-key error. Every error caught at the bottom is answered with 500.
\<close>

definition create_bid ::
  "db_step option \<Rightarrow> oid \<Rightarrow> nat \<Rightarrow> req_user \<Rightarrow> bid_body \<Rightarrow> store \<Rightarrow> bid response \<times> store" where
  "create_bid fault newId now user body s =
     (if fault = Some FindOneBid then (Err 500 (DbError FindOneBid), s)
      else case findOne_bid (body_gigId body) (user_id user) (bids s) of
        Some existingBid \<Rightarrow> (Err 400 AlreadyBid, s)
      | None \<Rightarrow>
          if fault = Some InsertBid then (Err 500 (DbError InsertBid), s)
          else if newId \<in> set (map bid_id (bids s)) then (Err 500 (DbError InsertBid), s)
          else
            let b = \<lparr> bid_id = newId, bid_gigId = body_gigId body,
                      freelancerId = user_id user, freelancerName = user_name user,
                      message = body_message body, price = body_price body,
                      bid_status = Pending, bid_createdAt = now \<rparr>
            in (Ok200 b, s\<lparr>bids := bids s @ [b]\<rparr>))"

section \<open>POST /api/hire (src/server/index.js, lines 143-169)\<close>

text \<open>
  The body of the \<^verbatim>\<open>try\<close> block up to the commit, run inside the transaction: it
  returns the store the transaction would commit, or the error thrown. The gig is looked
  up and checked; the bid is never looked up.
\<close>

definition hire_post_tx ::
  "db_step option \<Rightarrow> oid \<Rightarrow> oid \<Rightarrow> oid \<Rightarrow> store \<Rightarrow> error + store" where
  "hire_post_tx fault actor gigId bidId s =
     (if fault = Some FindGig then Inl (DbError FindGig)
      else case findById_gig gigId (gigs s) of
        None \<Rightarrow> Inl UnauthorizedOrGigNotFound
      | Some g \<Rightarrow>
          if ownerId g \<noteq> actor then Inl UnauthorizedOrGigNotFound
          else if gig_status g \<noteq> Open then Inl GigNotOpen
          else if fault = Some SaveGig then Inl (DbError SaveGig)
          else
            let s1 = s\<lparr>gigs := save_gig (g\<lparr>gig_status := Assigned\<rparr>) (gigs s)\<rparr> in
            if fault = Some UpdateManyBids then Inl (DbError UpdateManyBids)
            else
              let s2 = s1\<lparr>bids := updateMany_bids gigId Rejected (bids s1)\<rparr> in
              if fault = Some UpdateBid then Inl (DbError UpdateBid)
              else
                let s3 = s2\<lparr>bids := findByIdAndUpdate_bid bidId Hired (bids s2)\<rparr> in
                Inr s3)"

text \<open>
  The handler. A throw inside the transaction reaches the \<^verbatim>\<open>catch\<close> block:
  \<^verbatim>\<open>abortTransaction\<close> ends the transaction in progress, its writes are discarded, and
  the answer is 400 with the error's message. A throwing \<^verbatim>\<open>commitTransaction\<close>
  reaches the same block with nothing committed, but on a session whose
  \<^verbatim>\<open>commitTransaction\<close> has been called \<^verbatim>\<open>abortTransaction\<close> itself throws: the
  \<^verbatim>\<open>res.status(400)\<close> after it is not reached and nothing is answered. Otherwise the
  transaction's store is the new store and the answer is 200. The third component is
  what the handler emits over socket.io: this handler has no emit.
\<close>

definition hire_post ::
  "db_step option \<Rightarrow> oid \<Rightarrow> oid \<Rightarrow> oid \<Rightarrow> store \<Rightarrow> unit response \<times> store \<times> event list" where
  "hire_post fault actor gigId bidId s =
     (case hire_post_tx fault actor gigId bidId s of
        Inl e \<Rightarrow> (Err 400 e, s, [])
      | Inr s' \<Rightarrow>
          if fault = Some Commit then (NoResponse, s, [])
          else (Ok200 (), s', []))"

section \<open>PATCH /api/bids/:bidId/hire (src/unnamed/part_004, lines 230-275)\<close>

text \<open>
  The later handler takes the bid id alone, fetches the bid first and takes the gig from
  it. The body of its \<^verbatim>\<open>try\<close> block up to the commit returns the store to commit
  together with the bid and gig it read, which the notification after the commit uses.
\<close>

definition hire_patch_tx ::
  "db_step option \<Rightarrow> oid \<Rightarrow> oid \<Rightarrow> store \<Rightarrow> error + (store \<times> bid \<times> gig)" where
  "hire_patch_tx fault actor bidId s =
     (if fault = Some FindBid then Inl (DbError FindBid)
      else case findById_bid bidId (bids s) of
        None \<Rightarrow> Inl BidNotFound
      | Some bidToHire \<Rightarrow>
          let gigId = bid_gigId bidToHire in
          if fault = Some FindGig then Inl (DbError FindGig)
          else case findById_gig gigId (gigs s) of
            None \<Rightarrow> Inl UnauthorizedOrGigNotFound
          | Some g \<Rightarrow>
              if ownerId g \<noteq> actor then Inl UnauthorizedOrGigNotFound
              else if gig_status g \<noteq> Open then Inl GigNotOpen
              else if fault = Some SaveGig then Inl (DbError SaveGig)
              else
                let g' = g\<lparr>gig_status := Assigned\<rparr>;
                    s1 = s\<lparr>gigs := save_gig g' (gigs s)\<rparr> in
                if fault = Some UpdateManyBids then Inl (DbError UpdateManyBids)
                else
                  let s2 = s1\<lparr>bids := updateMany_bids gigId Rejected (bids s1)\<rparr> in
                  if fault = Some UpdateBid then Inl (DbError UpdateBid)
                  else
                    let s3 = s2\<lparr>bids := findByIdAndUpdate_bid bidId Hired (bids s2)\<rparr> in
                    Inr (s3, bidToHire, g'))"

text \<open>
  \<^verbatim>\<open>io.to(bidToHire.freelancerId.toString()).emit('notification', {id, gigId, price,
  status: 'hired'})\<close>, from the bid and gig objects read inside the transaction.
\<close>

definition hired_notification :: "bid \<Rightarrow> gig \<Rightarrow> event" where
  "hired_notification bidToHire g =
     \<lparr> room = freelancerId bidToHire,
       event_name = ''notification'',
       payload = [(''id'', JStr (bid_id bidToHire)),
                  (''gigId'', JStr (gig_id g)),
                  (''price'', JNum (price bidToHire)),
                  (''status'', JStr ''hired'')] \<rparr>"

text \<open>
  The handler, as the one above up to the commit. The emit comes after the commit and
  before \<^verbatim>\<open>res.json\<close>, inside the same \<^verbatim>\<open>try\<close>: if it throws, the \<^verbatim>\<open>catch\<close> block
  runs on the committed session, \<^verbatim>\<open>abortTransaction\<close> throws there, and nothing is
  answered, while the committed store stays.
\<close>

definition hire_patch ::
  "db_step option \<Rightarrow> oid \<Rightarrow> oid \<Rightarrow> store \<Rightarrow> unit response \<times> store \<times> event list" where
  "hire_patch fault actor bidId s =
     (case hire_patch_tx fault actor bidId s of
        Inl e \<Rightarrow> (Err 400 e, s, [])
      | Inr (s', bidToHire, g) \<Rightarrow>
          if fault = Some Commit then (NoResponse, s, [])
          else if fault = Some Emit then (NoResponse, s', [])
          else (Ok200 (), s', [hired_notification bidToHire g]))"

section \<open>The hire invariant\<close>

text \<open>
  For every gig id some bid carries: at most one bid of that gig is hired, and a hired
  bid's gig exists and is assigned.
\<close>

definition hired_count :: "oid \<Rightarrow> bid list \<Rightarrow> nat" where
  "hired_count g bs = length (filter (\<lambda>b. bid_gigId b = g \<and> bid_status b = Hired) bs)"

definition gig_assigned :: "oid \<Rightarrow> gig list \<Rightarrow> bool" where
  "gig_assigned i gs =
     (case findById_gig i gs of None \<Rightarrow> False | Some g \<Rightarrow> gig_status g = Assigned)"

definition hire_invariant :: "store \<Rightarrow> bool" where
  "hire_invariant s =
     (\<forall>b \<in> set (bids s).
        hired_count (bid_gigId b) (bids s) \<le> 1 \<and>
        (bid_status b = Hired \<longrightarrow> gig_assigned (bid_gigId b) (gigs s)))"

section \<open>The client's circuit breaker (src/unnamed/part_000, lines 29-120)\<close>

text \<open>
  A thrown JavaScript error with the three properties \<^verbatim>\<open>requestWithFallback\<close> reads;
  \<^verbatim>\<open>status\<close> is absent on everything but the errors \<^verbatim>\<open>handleResponse\<close> builds.
\<close>

record js_error =
  err_name :: string
  err_message :: string
  err_status :: "nat option"

text \<open>What awaiting a thunk gives: its value, or the error it throws.\<close>

datatype 'a outcome = Resolves 'a | Throws js_error

text \<open>What a call does besides returning, in order.\<close>

datatype effect = CallFetch | Warn | Sleep nat | CallFallback | LogError

definition DELAY :: nat where
  "DELAY = 200"

fun startsWith :: "string \<Rightarrow> string \<Rightarrow> bool" where
  "startsWith s [] = True"
| "startsWith [] (c # cs) = False"
| "startsWith (x # xs) (c # cs) = (x = c \<and> startsWith xs cs)"

text \<open>\<^verbatim>\<open>String.prototype.includes\<close>\<close>

fun js_includes :: "string \<Rightarrow> string \<Rightarrow> bool" where
  "js_includes [] sub = (sub = [])"
| "js_includes (x # xs) sub = (startsWith (x # xs) sub \<or> js_includes xs sub)"

text \<open>\<^verbatim>\<open>error.status && error.status >= 400 && error.status < 500 && error.status !== 404\<close>
  (an absent status and 0 are falsy).\<close>

definition is_client_error :: "js_error \<Rightarrow> bool" where
  "is_client_error e =
     (case err_status e of
        None \<Rightarrow> False
      | Some c \<Rightarrow> c > 0 \<and> c \<ge> 400 \<and> c < 500 \<and> c \<noteq> 404)"

definition isNetworkError :: "js_error \<Rightarrow> bool" where
  "isNetworkError e =
     (err_name e = ''AbortError'' \<or> err_name e = ''TypeError'' \<or>
      js_includes (err_message e) ''non-JSON'')"

definition isServerError :: "js_error \<Rightarrow> bool" where
  "isServerError e =
     (case err_status e of
        None \<Rightarrow> False
      | Some c \<Rightarrow> c > 0 \<and> (c \<ge> 500 \<or> c = 404))"

text \<open>
  The module-level \<^verbatim>\<open>let isBackendOffline = false\<close> is threaded through: the call
  takes its value and returns the new one. \<open>fetchFn\<close> and \<open>fallbackFn\<close> are what the
  two thunks give if they are called; the effect list says which of them were.
\<close>

definition requestWithFallback ::
  "bool \<Rightarrow> 'a outcome \<Rightarrow> 'a outcome \<Rightarrow> 'a outcome \<times> bool \<times> effect list" where
  "requestWithFallback isBackendOffline fetchFn fallbackFn =
     (if isBackendOffline then (fallbackFn, isBackendOffline, [CallFallback])
      else case fetchFn of
        Resolves response \<Rightarrow> (Resolves response, isBackendOffline, [CallFetch])
      | Throws e \<Rightarrow>
          if is_client_error e then (Throws e, isBackendOffline, [CallFetch])
          else
            let switch = ((isNetworkError e \<or> isServerError e) \<and> \<not> isBackendOffline);
                offline' = (if switch then True else isBackendOffline);
                before = [CallFetch] @ (if switch then [Warn] else []) @ [Sleep DELAY, CallFallback]
            in (case fallbackFn of
                  Resolves r \<Rightarrow> (Resolves r, offline', before)
                | Throws fallbackError \<Rightarrow>
                    (Throws fallbackError, offline',
                     before @ (if err_message fallbackError = ''No session'' then [] else [LogError]))))"

text \<open>The calls of one page lifetime, one after the other, from a given flag.\<close>

fun run_requests ::
  "bool \<Rightarrow> ('a outcome \<times> 'a outcome) list \<Rightarrow> ('a outcome \<times> effect list) list \<times> bool" where
  "run_requests off [] = ([], off)"
| "run_requests off ((fetchFn, fallbackFn) # rs) =
     (case requestWithFallback off fetchFn fallbackFn of
        (r, off', tr) \<Rightarrow>
          (case run_requests off' rs of (out, off'') \<Rightarrow> ((r, tr) # out, off'')))"

section \<open>A marketplace to evaluate on\<close>

text \<open>
  The scenario of the specification: gig G1 of owner U1, open, with the pending bids B1
  (freelancer F1, price 100) and B2 (freelancer F2, price 120); beside it a second open
  gig G2 of owner U2 with the pending bid B3 of F1. \<open>B9\<close> is a well-formed id no bid has.
\<close>

definition G1 :: oid where "G1 = ''a00000000000000000000001''"
definition G2 :: oid where "G2 = ''a00000000000000000000002''"
definition B1 :: oid where "B1 = ''b00000000000000000000001''"
definition B2 :: oid where "B2 = ''b00000000000000000000002''"
definition B3 :: oid where "B3 = ''b00000000000000000000003''"
definition B9 :: oid where "B9 = ''b00000000000000000000009''"
definition U1 :: oid where "U1 = ''c00000000000000000000001''"
definition U2 :: oid where "U2 = ''c00000000000000000000002''"
definition F1 :: oid where "F1 = ''f00000000000000000000001''"
definition F2 :: oid where "F2 = ''f00000000000000000000002''"

definition gig1 :: gig where
  "gig1 = \<lparr> gig_id = G1, title = ''Logo'', description = ''A logo'', budget = 150,
            ownerId = U1, ownerName = ''Alice'', gig_status = Open, gig_createdAt = 1 \<rparr>"

definition gig2 :: gig where
  "gig2 = \<lparr> gig_id = G2, title = ''App'', description = ''An app'', budget = 5000,
            ownerId = U2, ownerName = ''Bob'', gig_status = Open, gig_createdAt = 2 \<rparr>"

definition bid1 :: bid where
  "bid1 = \<lparr> bid_id = B1, bid_gigId = G1, freelancerId = F1, freelancerName = ''Fay'',
            message = ''hi'', price = 100, bid_status = Pending, bid_createdAt = 3 \<rparr>"

definition bid2 :: bid where
  "bid2 = \<lparr> bid_id = B2, bid_gigId = G1, freelancerId = F2, freelancerName = ''Fox'',
            message = ''yo'', price = 120, bid_status = Pending, bid_createdAt = 4 \<rparr>"

definition bid3 :: bid where
  "bid3 = \<lparr> bid_id = B3, bid_gigId = G2, freelancerId = F1, freelancerName = ''Fay'',
            message = ''me'', price = 4000, bid_status = Pending, bid_createdAt = 5 \<rparr>"

definition market :: store where
  "market = \<lparr> gigs = [gig1, gig2], bids = [bid1, bid2, bid3] \<rparr>"

text \<open>The same marketplace after U1 hired B1 for G1.\<close>

definition market_hired :: store where
  "market_hired =
     \<lparr> gigs = [gig1\<lparr>gig_status := Assigned\<rparr>, gig2],
       bids = [bid1\<lparr>bid_status := Hired\<rparr>, bid2\<lparr>bid_status := Rejected\<rparr>, bid3] \<rparr>"

text \<open>Two errors of the client side: \<^verbatim>\<open>fetch\<close> failing on the network, and the
  fallback of \<^verbatim>\<open>checkSession\<close> finding no session.\<close>

definition fetch_failed :: js_error where
  "fetch_failed = \<lparr>err_name = ''TypeError'', err_message = ''Failed to fetch'', err_status = None\<rparr>"

definition no_session :: js_error where
  "no_session = \<lparr>err_name = ''Error'', err_message = ''No session'', err_status = None\<rparr>"

section \<open>Evaluating the marketplace\<close>

lemmas ids = G1_def G2_def B1_def B2_def B3_def B9_def U1_def U2_def F1_def F2_def

lemmas market_defs = gig1_def gig2_def bid1_def bid2_def bid3_def market_def market_hired_def

lemmas db_calls = findById_gig_def findById_bid_def findOne_bid_def updateMany_bids_def

lemmas handlers = hire_post_def hire_post_tx_def hire_patch_def hire_patch_tx_def Let_def

section \<open>Facts about the persistence calls\<close>

lemma findById_bid_Some:
  "findById_bid i bs = Some b \<Longrightarrow> bid_id b = i \<and> b \<in> set bs"
  by (auto simp: findById_bid_def find_Some_iff)

lemma findById_gig_Some:
  "findById_gig i gs = Some g \<Longrightarrow> gig_id g = i \<and> g \<in> set gs"
  by (auto simp: findById_gig_def find_Some_iff)

lemma findById_bid_Cons:
  "findById_bid i (b # bs) = (if bid_id b = i then Some b else findById_bid i bs)"
  by (simp add: findById_bid_def)

lemma findById_bid_updateMany:
  "findById_bid i (updateMany_bids g st bs) =
     map_option (\<lambda>b. if bid_gigId b = g then b\<lparr>bid_status := st\<rparr> else b) (findById_bid i bs)"
  by (induction bs) (auto simp: findById_bid_def updateMany_bids_def)

lemma findById_bid_findByIdAndUpdate:
  "findById_bid i (findByIdAndUpdate_bid i st bs) =
     map_option (\<lambda>b. b\<lparr>bid_status := st\<rparr>) (findById_bid i bs)"
  by (induction bs) (auto simp: findById_bid_def)

lemma findById_gig_save_same:
  "findById_gig (gig_id g) gs = Some g0 \<Longrightarrow> findById_gig (gig_id g) (save_gig g gs) = Some g"
  by (induction gs) (auto simp: findById_gig_def)

lemma findById_gig_save_other:
  "j \<noteq> gig_id g \<Longrightarrow> findById_gig j (save_gig g gs) = findById_gig j gs"
  by (induction gs) (auto simp: findById_gig_def)

lemma updateMany_bids_mem:
  assumes "x \<in> set (updateMany_bids g st bs)"
  obtains b where "b \<in> set bs" and "x = (if bid_gigId b = g then b\<lparr>bid_status := st\<rparr> else b)"
  using assms unfolding updateMany_bids_def by (auto simp only: set_map image_iff)

lemma updateMany_bids_status:
  assumes "x \<in> set (updateMany_bids g st bs)" and "bid_gigId x = g"
  shows "bid_status x = st"
proof -
  from assms(1) obtain b where b: "b \<in> set bs"
      and x: "x = (if bid_gigId b = g then b\<lparr>bid_status := st\<rparr> else b)"
    by (rule updateMany_bids_mem)
  show ?thesis
  proof (cases "bid_gigId b = g")
    case True
    then show ?thesis using x by simp
  next
    case False
    then show ?thesis using x assms(2) by simp
  qed
qed

lemma updateMany_bids_other:
  assumes "x \<in> set (updateMany_bids g st bs)" and "bid_gigId x \<noteq> g"
  shows "x \<in> set bs"
proof -
  from assms(1) obtain b where b: "b \<in> set bs"
      and x: "x = (if bid_gigId b = g then b\<lparr>bid_status := st\<rparr> else b)"
    by (rule updateMany_bids_mem)
  show ?thesis
  proof (cases "bid_gigId b = g")
    case True
    then show ?thesis using x assms(2) by simp
  next
    case False
    then show ?thesis using x b by simp
  qed
qed

lemma findByIdAndUpdate_bid_set:
  "x \<in> set (findByIdAndUpdate_bid i st bs) \<Longrightarrow>
     x \<in> set bs \<or> (\<exists>y. findById_bid i bs = Some y \<and> x = y\<lparr>bid_status := st\<rparr>)"
proof (induction bs)
  case Nil
  then show ?case by simp
next
  case (Cons a bs)
  show ?case
  proof (cases "bid_id a = i")
    case True
    then have "findById_bid i (a # bs) = Some a"
      by (simp add: findById_bid_def)
    moreover have "x = a\<lparr>bid_status := st\<rparr> \<or> x \<in> set bs"
      using Cons.prems True by simp
    ultimately show ?thesis by auto
  next
    case False
    then have f: "findById_bid i (a # bs) = findById_bid i bs"
      by (simp add: findById_bid_def)
    have "x = a \<or> x \<in> set (findByIdAndUpdate_bid i st bs)"
      using Cons.prems False by simp
    then show ?thesis
    proof
      assume "x = a"
      then show ?thesis by simp
    next
      assume "x \<in> set (findByIdAndUpdate_bid i st bs)"
      from Cons.IH [OF this] show ?thesis
        unfolding f by auto
    qed
  qed
qed

lemma others_rejected:
  assumes "x \<in> set (findByIdAndUpdate_bid i Hired (updateMany_bids g Rejected bs))"
    and "bid_gigId x = g" and "bid_id x \<noteq> i"
  shows "bid_status x = Rejected"
proof -
  from findByIdAndUpdate_bid_set [OF assms(1)]
  have "x \<in> set (updateMany_bids g Rejected bs)"
  proof
    assume "x \<in> set (updateMany_bids g Rejected bs)"
    then show ?thesis .
  next
    assume "\<exists>y. findById_bid i (updateMany_bids g Rejected bs) = Some y \<and> x = y\<lparr>bid_status := Hired\<rparr>"
    then obtain y where y: "findById_bid i (updateMany_bids g Rejected bs) = Some y"
        and x: "x = y\<lparr>bid_status := Hired\<rparr>"
      by blast
    have "bid_id y = i"
      using findById_bid_Some [OF y] by simp
    then have "bid_id x = i"
      using x by simp
    then show ?thesis using assms(3) by simp
  qed
  then show ?thesis
    using assms(2) by (rule updateMany_bids_status)
qed

lemma bids_of_other_gigs_kept:
  assumes "x \<in> set (findByIdAndUpdate_bid i Hired (updateMany_bids g Rejected bs))"
    and "bid_gigId x \<noteq> g" and "findById_bid i bs = Some b" and "bid_gigId b = g"
  shows "x \<in> set bs"
proof -
  have f: "findById_bid i (updateMany_bids g Rejected bs) = Some (b\<lparr>bid_status := Rejected\<rparr>)"
    by (simp add: findById_bid_updateMany assms(3,4))
  from findByIdAndUpdate_bid_set [OF assms(1)]
  have "x \<in> set (updateMany_bids g Rejected bs)"
  proof
    assume "x \<in> set (updateMany_bids g Rejected bs)"
    then show ?thesis .
  next
    assume "\<exists>y. findById_bid i (updateMany_bids g Rejected bs) = Some y \<and> x = y\<lparr>bid_status := Hired\<rparr>"
    then have "x = b\<lparr>bid_status := Rejected\<rparr>\<lparr>bid_status := Hired\<rparr>"
      unfolding f by blast
    then have "bid_gigId x = g"
      using assms(4) by simp
    then show ?thesis using assms(2) by simp
  qed
  then show ?thesis
    using assms(2) by (rule updateMany_bids_other)
qed

section \<open>Counting the hired bids of a gig\<close>

lemma hired_count_Cons:
  "hired_count g (b # bs) =
     (if bid_gigId b = g \<and> bid_status b = Hired then Suc (hired_count g bs) else hired_count g bs)"
  by (simp add: hired_count_def)

lemma hired_count_Nil: "hired_count g [] = 0"
  by (simp add: hired_count_def)

lemma updateMany_bids_Cons:
  "updateMany_bids g st (b # bs) =
     (if bid_gigId b = g then b\<lparr>bid_status := st\<rparr> else b) # updateMany_bids g st bs"
  by (simp add: updateMany_bids_def)

lemma updateMany_bids_Nil: "updateMany_bids g st [] = []"
  by (simp add: updateMany_bids_def)

lemma hired_count_updateMany_same:
  "hired_count g (updateMany_bids g Rejected bs) = 0"
  by (induction bs) (simp_all add: hired_count_Cons hired_count_Nil updateMany_bids_Cons updateMany_bids_Nil)

lemma hired_count_updateMany_other:
  "g' \<noteq> g \<Longrightarrow> hired_count g' (updateMany_bids g st bs) = hired_count g' bs"
  by (induction bs) (simp_all add: hired_count_Cons hired_count_Nil updateMany_bids_Cons updateMany_bids_Nil)

lemma hired_count_findByIdAndUpdate_other:
  "findById_bid i bs = Some b \<Longrightarrow> bid_gigId b \<noteq> g' \<Longrightarrow>
     hired_count g' (findByIdAndUpdate_bid i st bs) = hired_count g' bs"
proof (induction bs)
  case Nil
  then show ?case by (simp add: findById_bid_def)
next
  case (Cons a bs)
  show ?case
  proof (cases "bid_id a = i")
    case True
    then have "a = b"
      using Cons.prems(1) by (simp add: findById_bid_Cons)
    then show ?thesis
      using True Cons.prems(2) by (simp add: hired_count_Cons)
  next
    case False
    then have "findById_bid i bs = Some b"
      using Cons.prems(1) by (simp add: findById_bid_Cons)
    from Cons.IH [OF this Cons.prems(2)] show ?thesis
      using False by (simp add: hired_count_Cons)
  qed
qed

lemma hired_count_findByIdAndUpdate_same:
  "findById_bid i bs = Some b \<Longrightarrow> bid_gigId b = g \<Longrightarrow> hired_count g bs = 0 \<Longrightarrow>
     hired_count g (findByIdAndUpdate_bid i Hired bs) = 1"
proof (induction bs)
  case Nil
  then show ?case by (simp add: findById_bid_def)
next
  case (Cons a bs)
  have rest: "hired_count g bs = 0" and a: "\<not> (bid_gigId a = g \<and> bid_status a = Hired)"
    using Cons.prems(3) by (simp_all add: hired_count_Cons split: if_splits)
  show ?case
  proof (cases "bid_id a = i")
    case True
    then have "a = b"
      using Cons.prems(1) by (simp add: findById_bid_Cons)
    then show ?thesis
      using True Cons.prems(2) rest by (simp add: hired_count_Cons)
  next
    case False
    then have "findById_bid i bs = Some b"
      using Cons.prems(1) by (simp add: findById_bid_Cons)
    from Cons.IH [OF this Cons.prems(2) rest] show ?thesis
      using False a by (simp add: hired_count_Cons)
  qed
qed

lemma hired_count_after_hire:
  assumes "findById_bid i bs = Some b"
  shows "hired_count g (findByIdAndUpdate_bid i Hired (updateMany_bids (bid_gigId b) Rejected bs)) =
           (if g = bid_gigId b then 1 else hired_count g bs)"
proof -
  have f: "findById_bid i (updateMany_bids (bid_gigId b) Rejected bs) = Some (b\<lparr>bid_status := Rejected\<rparr>)"
    by (simp add: findById_bid_updateMany assms)
  have gb: "bid_gigId (b\<lparr>bid_status := Rejected\<rparr>) = bid_gigId b"
    by simp
  show ?thesis
  proof (cases "g = bid_gigId b")
    case True
    have "hired_count (bid_gigId b) (findByIdAndUpdate_bid i Hired (updateMany_bids (bid_gigId b) Rejected bs)) = 1"
      by (rule hired_count_findByIdAndUpdate_same [OF f gb hired_count_updateMany_same])
    then show ?thesis using True by simp
  next
    case False
    then have ne: "bid_gigId (b\<lparr>bid_status := Rejected\<rparr>) \<noteq> g"
      by simp
    have "hired_count g (findByIdAndUpdate_bid i Hired (updateMany_bids (bid_gigId b) Rejected bs))
          = hired_count g (updateMany_bids (bid_gigId b) Rejected bs)"
      by (rule hired_count_findByIdAndUpdate_other [OF f ne])
    also have "\<dots> = hired_count g bs"
      by (rule hired_count_updateMany_other [OF False])
    finally show ?thesis using False by simp
  qed
qed

lemma hired_count_le_1:
  assumes "hire_invariant s"
  shows "hired_count g (bids s) \<le> 1"
proof (cases "hired_count g (bids s) = 0")
  case True
  then show ?thesis by simp
next
  case False
  then have "filter (\<lambda>b. bid_gigId b = g \<and> bid_status b = Hired) (bids s) \<noteq> []"
    by (simp add: hired_count_def)
  then obtain x where x: "x \<in> set (bids s)" and gx: "bid_gigId x = g"
    unfolding filter_empty_conv by blast
  have "hired_count (bid_gigId x) (bids s) \<le> 1"
    using assms x unfolding hire_invariant_def by blast
  then show ?thesis
    using gx by simp
qed

section \<open>What a successful hire has read and written\<close>

lemma hire_post_tx_Inr:
  "hire_post_tx fault actor gigId bidId s = Inr s' \<Longrightarrow>
     \<exists>g. findById_gig gigId (gigs s) = Some g \<and> ownerId g = actor \<and> gig_status g = Open \<and>
         s' = \<lparr> gigs = save_gig (g\<lparr>gig_status := Assigned\<rparr>) (gigs s),
                bids = findByIdAndUpdate_bid bidId Hired (updateMany_bids gigId Rejected (bids s)) \<rparr>"
  by (auto simp: hire_post_tx_def Let_def split: if_splits option.splits)

lemma hire_patch_tx_Inr:
  "hire_patch_tx fault actor bidId s = Inr (s', b, g') \<Longrightarrow>
     \<exists>g. findById_bid bidId (bids s) = Some b \<and>
         findById_gig (bid_gigId b) (gigs s) = Some g \<and> ownerId g = actor \<and> gig_status g = Open \<and>
         g' = g\<lparr>gig_status := Assigned\<rparr> \<and>
         s' = \<lparr> gigs = save_gig g' (gigs s),
                bids = findByIdAndUpdate_bid bidId Hired
                         (updateMany_bids (bid_gigId b) Rejected (bids s)) \<rparr>"
  by (auto simp: hire_patch_tx_def Let_def split: if_splits option.splits)

lemma hire_patch_Ok:
  "hire_patch fault actor bidId s = (Ok200 (), s', evs) \<Longrightarrow>
     \<exists>b g. findById_bid bidId (bids s) = Some b \<and>
         findById_gig (bid_gigId b) (gigs s) = Some g \<and> ownerId g = actor \<and> gig_status g = Open \<and>
         evs = [hired_notification b (g\<lparr>gig_status := Assigned\<rparr>)] \<and>
         s' = \<lparr> gigs = save_gig (g\<lparr>gig_status := Assigned\<rparr>) (gigs s),
                bids = findByIdAndUpdate_bid bidId Hired
                         (updateMany_bids (bid_gigId b) Rejected (bids s)) \<rparr>"
  by (auto simp: hire_patch_def split: sum.splits prod.splits if_splits dest!: hire_patch_tx_Inr)

text \<open>Where the bid exists and belongs to the gig named in the request, the two handlers
  answer alike and leave the same store.\<close>

lemma hire_post_agrees_with_patch:
  assumes "findById_bid bidId (bids s) = Some b" and "bid_gigId b = gigId"
    and "fault \<noteq> Some FindBid" and "fault \<noteq> Some Emit"
  shows "fst (hire_post fault actor gigId bidId s) = fst (hire_patch fault actor bidId s) \<and>
         fst (snd (hire_post fault actor gigId bidId s)) = fst (snd (hire_patch fault actor bidId s))"
  using assms by (simp add: handlers split: option.splits)

section \<open>The outcome of a successful hire\<close>

text \<open>
  After a successful PATCH /api/bids/:bidId/hire the bid is hired, every other bid of its
  gig is rejected, exactly one bid of the gig is hired, and the gig is assigned.
\<close>

lemma hire_patch_postcondition:
  assumes "hire_patch fault actor bidId s = (Ok200 (), s', evs)"
  shows "\<exists>b g. findById_bid bidId (bids s) = Some b \<and>
           findById_gig (bid_gigId b) (gigs s) = Some g \<and>
           findById_bid bidId (bids s') = Some (b\<lparr>bid_status := Hired\<rparr>) \<and>
           (\<forall>x \<in> set (bids s'). bid_gigId x = bid_gigId b \<and> bid_id x \<noteq> bidId
               \<longrightarrow> bid_status x = Rejected) \<and>
           hired_count (bid_gigId b) (bids s') = 1 \<and>
           findById_gig (bid_gigId b) (gigs s') = Some (g\<lparr>gig_status := Assigned\<rparr>)"
proof -
  from hire_patch_Ok [OF assms] obtain b g where
    b: "findById_bid bidId (bids s) = Some b" and
    g: "findById_gig (bid_gigId b) (gigs s) = Some g" and
    s': "s' = \<lparr> gigs = save_gig (g\<lparr>gig_status := Assigned\<rparr>) (gigs s),
                bids = findByIdAndUpdate_bid bidId Hired
                         (updateMany_bids (bid_gigId b) Rejected (bids s)) \<rparr>"
    by blast
  have gid: "gig_id g = bid_gigId b"
    using findById_gig_Some [OF g] by simp
  have bs': "bids s' = findByIdAndUpdate_bid bidId Hired (updateMany_bids (bid_gigId b) Rejected (bids s))"
    and gs': "gigs s' = save_gig (g\<lparr>gig_status := Assigned\<rparr>) (gigs s)"
    by (simp_all add: s')
  have 1: "findById_bid bidId (bids s') = Some (b\<lparr>bid_status := Hired\<rparr>)"
    unfolding bs' by (simp add: findById_bid_findByIdAndUpdate findById_bid_updateMany b)
  have 2: "\<forall>x \<in> set (bids s'). bid_gigId x = bid_gigId b \<and> bid_id x \<noteq> bidId
               \<longrightarrow> bid_status x = Rejected"
    unfolding bs' using others_rejected by blast
  have 3: "hired_count (bid_gigId b) (bids s') = 1"
    unfolding bs' by (simp add: hired_count_after_hire [OF b])
  have g0: "findById_gig (gig_id (g\<lparr>gig_status := Assigned\<rparr>)) (gigs s) = Some g"
    using g gid by simp
  have 4: "findById_gig (bid_gigId b) (gigs s') = Some (g\<lparr>gig_status := Assigned\<rparr>)"
    unfolding gs' using findById_gig_save_same [OF g0] gid by simp
  show ?thesis
    using b g 1 2 3 4 by blast
qed

text \<open>
  C1. After a successful hire of bid b for gig G the bid with id b is hired, every other
  bid of G is rejected and G is assigned. POST /api/hire never looks the bid up: called
  by the owner of the open gig G1 with the well-formed id B9 that no bid has, it answers
  200, assigns G1 and rejects both of its bids, and no bid is hired.
\<close>

theorem hire_post_unknown_bid:
  "hire_post None U1 G1 B9 market =
     (Ok200 (),
      \<lparr> gigs = [gig1\<lparr>gig_status := Assigned\<rparr>, gig2],
        bids = [bid1\<lparr>bid_status := Rejected\<rparr>, bid2\<lparr>bid_status := Rejected\<rparr>, bid3] \<rparr>,
      [])"
  by (simp add: handlers db_calls market_defs ids)

section \<open>The hire invariant under the operations\<close>

text \<open>Bid creation and the PATCH handler keep the invariant.\<close>

lemma create_bid_keeps_invariant:
  assumes inv: "hire_invariant s"
  shows "hire_invariant (snd (create_bid fault newId now user body s))"
proof (cases "snd (create_bid fault newId now user body s) = s")
  case True
  then show ?thesis using inv by simp
next
  case False
  define nb where "nb = \<lparr> bid_id = newId, bid_gigId = body_gigId body,
                      freelancerId = user_id user, freelancerName = user_name user,
                      message = body_message body, price = body_price body,
                      bid_status = Pending, bid_createdAt = now \<rparr>"
  have nb: "bid_status nb = Pending"
    by (simp add: nb_def)
  have s': "snd (create_bid fault newId now user body s) = s\<lparr>bids := bids s @ [nb]\<rparr>"
    using False by (simp add: create_bid_def Let_def nb_def split: if_splits option.splits)
  have c: "hired_count j (bids s @ [nb]) = hired_count j (bids s)" for j
    using nb by (simp add: hired_count_def)
  have count: "hired_count j (bids (s\<lparr>bids := bids s @ [nb]\<rparr>)) \<le> 1" for j
    using hired_count_le_1 [OF inv, of j] by (simp add: c)
  have hired: "gig_assigned (bid_gigId x) (gigs (s\<lparr>bids := bids s @ [nb]\<rparr>))"
    if x: "x \<in> set (bids (s\<lparr>bids := bids s @ [nb]\<rparr>))" and h: "bid_status x = Hired" for x
  proof -
    have "x \<noteq> nb" using h nb by auto
    then have "x \<in> set (bids s)" using x by simp
    then have "gig_assigned (bid_gigId x) (gigs s)"
      using inv h unfolding hire_invariant_def by blast
    then show ?thesis by simp
  qed
  show ?thesis
    unfolding s' hire_invariant_def using count hired by blast
qed

lemma hire_patch_keeps_invariant:
  assumes inv: "hire_invariant s"
    and ok: "hire_patch fault actor bidId s = (Ok200 (), s', evs)"
  shows "hire_invariant s'"
proof -
  from hire_patch_Ok [OF ok] obtain b g where
    b: "findById_bid bidId (bids s) = Some b" and
    g: "findById_gig (bid_gigId b) (gigs s) = Some g" and
    s': "s' = \<lparr> gigs = save_gig (g\<lparr>gig_status := Assigned\<rparr>) (gigs s),
                bids = findByIdAndUpdate_bid bidId Hired
                         (updateMany_bids (bid_gigId b) Rejected (bids s)) \<rparr>"
    by blast
  have gid: "gig_id g = bid_gigId b"
    using findById_gig_Some [OF g] by simp
  have bs': "bids s' = findByIdAndUpdate_bid bidId Hired (updateMany_bids (bid_gigId b) Rejected (bids s))"
    and gs': "gigs s' = save_gig (g\<lparr>gig_status := Assigned\<rparr>) (gigs s)"
    by (simp_all add: s')
  have g0: "findById_gig (gig_id (g\<lparr>gig_status := Assigned\<rparr>)) (gigs s) = Some g"
    using g gid by simp
  have "findById_gig (bid_gigId b) (gigs s') = Some (g\<lparr>gig_status := Assigned\<rparr>)"
    unfolding gs' using findById_gig_save_same [OF g0] gid by simp
  then have assigned: "gig_assigned (bid_gigId b) (gigs s')"
    by (simp add: gig_assigned_def)
  have other: "gig_assigned j (gigs s') = gig_assigned j (gigs s)" if "j \<noteq> bid_gigId b" for j
  proof -
    have "j \<noteq> gig_id (g\<lparr>gig_status := Assigned\<rparr>)"
      using that gid by simp
    then have "findById_gig j (gigs s') = findById_gig j (gigs s)"
      unfolding gs' by (rule findById_gig_save_other)
    then show ?thesis
      by (simp add: gig_assigned_def)
  qed
  have count: "hired_count j (bids s') \<le> 1" for j
    unfolding bs' using hired_count_le_1 [OF inv, of j]
    by (simp add: hired_count_after_hire [OF b])
  have hired: "gig_assigned (bid_gigId x) (gigs s')"
    if x: "x \<in> set (bids s')" and h: "bid_status x = Hired" for x
  proof (cases "bid_gigId x = bid_gigId b")
    case True
    then show ?thesis using assigned by simp
  next
    case False
    have "x \<in> set (bids s)"
      using bids_of_other_gigs_kept [OF x [unfolded bs'] False b refl] .
    then have "gig_assigned (bid_gigId x) (gigs s)"
      using inv h unfolding hire_invariant_def by blast
    then show ?thesis using other [OF False] by simp
  qed
  show ?thesis
    unfolding hire_invariant_def using count hired by blast
qed

text \<open>POST /api/hire does not: the owner of G1 can hire B3, a bid of the open gig G2.\<close>

lemma hire_post_breaks_invariant:
  "hire_invariant market \<and> \<not> hire_invariant (fst (snd (hire_post None U1 G1 B3 market)))"
  by (simp add: handlers hire_invariant_def hired_count_def gig_assigned_def db_calls market_defs ids)

text \<open>
  C2. No operation leaves a bid hired whose gig is still open, or two hired bids of one
  gig. POST /api/hire with gig G1 and bid B3 of gig G2, by the owner of G1, answers 200
  and leaves B3 hired while its gig G2 is open (and G1 assigned with no hired bid).
\<close>

theorem hire_post_bid_of_other_gig:
  "hire_post None U1 G1 B3 market =
     (Ok200 (),
      \<lparr> gigs = [gig1\<lparr>gig_status := Assigned\<rparr>, gig2],
        bids = [bid1\<lparr>bid_status := Rejected\<rparr>, bid2\<lparr>bid_status := Rejected\<rparr>,
                bid3\<lparr>bid_status := Hired\<rparr>] \<rparr>,
      []) \<and>
   bid_gigId bid3 = G2 \<and> gig_status gig2 = Open"
  by (simp add: handlers db_calls market_defs ids)

section \<open>The bid check\<close>

text \<open>The PATCH handler looks the bid up before anything else: an id no bid has is
  'Bid not found', whoever asks and whatever the gigs are.\<close>

lemma hire_patch_bid_check_first:
  assumes "findById_bid bidId (bids s) = None" and "fault \<noteq> Some FindBid"
  shows "hire_patch fault actor bidId s = (Err 400 BidNotFound, s, [])"
  using assms by (simp add: handlers)

text \<open>
  C3. A hire whose bid id is no bid's, or is the id of a bid of another gig, fails with
  the bid not found, before the gig is looked at. POST /api/hire has no such check: with
  the absent id B9, and with B3 of the other gig G2, it answers 200. (The PATCH handler
  answers 400 'Bid not found' to B9.)
\<close>

theorem hire_post_skips_bid_check:
  "findById_bid B9 (bids market) = None \<and>
   fst (hire_post None U1 G1 B9 market) = Ok200 () \<and>
   findById_bid B3 (bids market) = Some bid3 \<and> bid_gigId bid3 \<noteq> G1 \<and>
   fst (hire_post None U1 G1 B3 market) = Ok200 () \<and>
   fst (hire_patch None U1 B9 market) = Err 400 BidNotFound"
  by (simp add: handlers db_calls market_defs ids)

section \<open>Hiring on an assigned gig\<close>

text \<open>
  C5, as amended. On a gig that is assigned, a hire by the gig's owner is answered 400
  'Gig is not open' and changes nothing: on POST /api/hire for every bid id, existing or
  not; on PATCH /api/bids/:bidId/hire for every bid of that gig. The PATCH handler
  answers an id that no bid has with 400 'Bid not found', again changing nothing. (The
  database reads before the check are taken not to throw.)
\<close>

theorem assigned_gig_refuses_hire:
  assumes "findById_gig gigId (gigs s) = Some g" and "gig_status g = Assigned"
    and "ownerId g = actor" and "fault \<noteq> Some FindGig"
  shows "hire_post fault actor gigId bidId s = (Err 400 GigNotOpen, s, []) \<and>
         (fault \<noteq> Some FindBid \<and> findById_bid bidId (bids s) = Some b \<and> bid_gigId b = gigId \<longrightarrow>
            hire_patch fault actor bidId s = (Err 400 GigNotOpen, s, [])) \<and>
         (fault \<noteq> Some FindBid \<and> findById_bid bidId (bids s) = None \<longrightarrow>
            hire_patch fault actor bidId s = (Err 400 BidNotFound, s, []))"
  using assms by (simp add: handlers)

theorem assigned_gig_refuses_hire_witness:
  "findById_gig G1 (gigs market_hired) = Some (gig1\<lparr>gig_status := Assigned\<rparr>) \<and>
   findById_bid B2 (bids market_hired) = Some (bid2\<lparr>bid_status := Rejected\<rparr>) \<and>
   hire_post None U1 G1 B9 market_hired = (Err 400 GigNotOpen, market_hired, []) \<and>
   hire_patch None U1 B2 market_hired = (Err 400 GigNotOpen, market_hired, [])"
proof -
  have g: "findById_gig G1 (gigs market_hired) = Some (gig1\<lparr>gig_status := Assigned\<rparr>)"
    by (simp add: db_calls market_defs ids)
  have st: "gig_status (gig1\<lparr>gig_status := Assigned\<rparr>) = Assigned"
    by simp
  have ow: "ownerId (gig1\<lparr>gig_status := Assigned\<rparr>) = U1"
    by (simp add: market_defs)
  have b: "findById_bid B2 (bids market_hired) = Some (bid2\<lparr>bid_status := Rejected\<rparr>)"
    by (simp add: db_calls market_defs ids)
  have bg: "bid_gigId (bid2\<lparr>bid_status := Rejected\<rparr>) = G1"
    by (simp add: market_defs)
  have f: "None \<noteq> Some FindGig"
    by simp
  show ?thesis
    using assigned_gig_refuses_hire [OF g st ow f, of B2 "bid2\<lparr>bid_status := Rejected\<rparr>"]
      assigned_gig_refuses_hire [OF g st ow f, of B9 "bid2\<lparr>bid_status := Rejected\<rparr>"] g b bg
    by simp
qed

text \<open>
  C5 as stated fails: with G1 assigned, the PATCH handler answers the owner's hire of
  the absent bid id B9 with 'Bid not found', and POST /api/hire answers the hire of B1
  by U2, who does not own G1, with 'Unauthorized or Gig not found'; neither is
  'Gig is not open'.
\<close>

theorem assigned_gig_counterexample:
  "gig_assigned G1 (gigs market_hired) \<and>
   hire_patch None U1 B9 market_hired = (Err 400 BidNotFound, market_hired, []) \<and>
   hire_post None U2 G1 B1 market_hired = (Err 400 UnauthorizedOrGigNotFound, market_hired, [])"
  by (simp add: handlers gig_assigned_def db_calls market_defs ids)

section \<open>Failed hires\<close>

text \<open>
  A failure inside the transaction (bid not found, not the owner, gig not open, a read
  or write that throws) is answered 400 with the error, the store after the call is the
  store before it, and nothing is emitted.
\<close>

lemma hire_failure_in_transaction:
  assumes "fault \<noteq> Some Commit" and "fault \<noteq> Some Emit"
  shows "(fst (hire_post fault actor gigId bidId s) \<noteq> Ok200 () \<longrightarrow>
            (\<exists>e. hire_post fault actor gigId bidId s = (Err 400 e, s, []))) \<and>
         (fst (hire_patch fault actor bidId s) \<noteq> Ok200 () \<longrightarrow>
            (\<exists>e. hire_patch fault actor bidId s = (Err 400 e, s, [])))"
  using assms by (auto simp: hire_post_def hire_patch_def split: sum.splits prod.splits)

text \<open>The transaction's body does not depend on whether the commit or the emit after
  it will throw.\<close>

lemma hire_post_tx_Commit:
  "hire_post_tx (Some Commit) actor gigId bidId s = hire_post_tx None actor gigId bidId s"
  by (simp add: hire_post_tx_def Let_def split: option.splits)

lemma hire_patch_tx_Commit:
  "hire_patch_tx (Some Commit) actor bidId s = hire_patch_tx None actor bidId s"
  by (simp add: hire_patch_tx_def Let_def split: option.splits)

lemma hire_patch_tx_Emit:
  "hire_patch_tx (Some Emit) actor bidId s = hire_patch_tx None actor bidId s"
  by (simp add: hire_patch_tx_def Let_def split: option.splits)

text \<open>
  Every hire that would be answered 200 is, when its commit throws, answered with
  nothing at all; the store is as before.
\<close>

lemma hire_failed_commit_unanswered:
  "(fst (hire_post None actor gigId bidId s) = Ok200 () \<longrightarrow>
      hire_post (Some Commit) actor gigId bidId s = (NoResponse, s, [])) \<and>
   (fst (hire_patch None actor bidId s) = Ok200 () \<longrightarrow>
      hire_patch (Some Commit) actor bidId s = (NoResponse, s, []))"
  by (auto simp: hire_post_def hire_patch_def hire_post_tx_Commit hire_patch_tx_Commit
      split: sum.splits prod.splits)

text \<open>
  C7. A failed hire, a failed commit included, is reported to the caller and leaves the
  store as it was. The hire of B1 for G1 by its owner U1 with \<^verbatim>\<open>commitTransaction\<close>
  throwing leaves the store as it was, but the caller is answered nothing, on both
  handlers: the \<^verbatim>\<open>catch\<close> block calls \<^verbatim>\<open>abortTransaction\<close> on the session whose
  commit was called, which throws before \<^verbatim>\<open>res.status(400)\<close>.
\<close>

theorem hire_commit_failure_unanswered:
  "hire_post (Some Commit) U1 G1 B1 market = (NoResponse, market, []) \<and>
   hire_patch (Some Commit) U1 B1 market = (NoResponse, market, [])"
  by (simp add: handlers db_calls market_defs ids)

text \<open>
  C6. If the gig exists and the actor is not its owner, the hire is answered 400 with
  'Unauthorized or Gig not found' and changes nothing: on POST /api/hire for any bid id,
  on PATCH /api/bids/:bidId/hire for any bid of the gig; whether the gig is open or not.
  (The database reads before the check are taken not to throw.)
\<close>

theorem non_owner_is_refused:
  assumes "findById_gig gigId (gigs s) = Some g" and "ownerId g \<noteq> actor"
    and "fault \<noteq> Some FindGig"
  shows "hire_post fault actor gigId bidId s = (Err 400 UnauthorizedOrGigNotFound, s, []) \<and>
         (fault \<noteq> Some FindBid \<and> findById_bid bidId (bids s) = Some b \<and> bid_gigId b = gigId \<longrightarrow>
            hire_patch fault actor bidId s = (Err 400 UnauthorizedOrGigNotFound, s, []))"
  using assms by (simp add: handlers)

theorem non_owner_is_refused_witness:
  "findById_gig G1 (gigs market) = Some gig1 \<and> ownerId gig1 \<noteq> U2 \<and>
   findById_bid B1 (bids market) = Some bid1 \<and> bid_gigId bid1 = G1 \<and>
   gig_status gig1 = Open \<and>
   hire_post None U2 G1 B1 market = (Err 400 UnauthorizedOrGigNotFound, market, []) \<and>
   hire_patch None U2 B1 market = (Err 400 UnauthorizedOrGigNotFound, market, [])"
proof -
  have g: "findById_gig G1 (gigs market) = Some gig1"
    by (simp add: db_calls market_defs ids)
  have o: "ownerId gig1 \<noteq> U2"
    by (simp add: market_defs ids)
  have b: "findById_bid B1 (bids market) = Some bid1 \<and> bid_gigId bid1 = G1 \<and> gig_status gig1 = Open"
    by (simp add: db_calls market_defs ids)
  show ?thesis
    using non_owner_is_refused [OF g o, of None B1 bid1] g o b by simp
qed

section \<open>Duplicate bids\<close>

text \<open>
  C8. If the store holds a bid of the same gig by the same freelancer, POST /api/bids is
  answered 400 'Already bid on this gig' and the store is unchanged: the existing bid is
  as it was and no bid is added. (The lookup is taken not to throw.)
\<close>

theorem duplicate_bid_is_refused:
  assumes "b \<in> set (bids s)" and "bid_gigId b = body_gigId body"
    and "freelancerId b = user_id user" and "fault \<noteq> Some FindOneBid"
  shows "create_bid fault newId now user body s = (Err 400 AlreadyBid, s)"
proof -
  have "find (\<lambda>b. bid_gigId b = body_gigId body \<and> freelancerId b = user_id user) (bids s) \<noteq> None"
    using assms(1-3) by (auto simp: find_None_iff)
  then show ?thesis
    using assms(4) by (auto simp: create_bid_def findOne_bid_def)
qed

theorem duplicate_bid_is_refused_witness:
  "bid1 \<in> set (bids market) \<and>
   create_bid None B9 9 \<lparr>user_id = F1, user_name = ''Fay''\<rparr>
     \<lparr>body_gigId = G1, body_message = ''again'', body_price = 90\<rparr> market
   = (Err 400 AlreadyBid, market)"
proof -
  have m: "bid1 \<in> set (bids market)"
    by (simp add: market_defs)
  show ?thesis
    using m duplicate_bid_is_refused [OF m, of "\<lparr>body_gigId = G1, body_message = ''again'', body_price = 90\<rparr>"
        "\<lparr>user_id = F1, user_name = ''Fay''\<rparr>" None B9 9]
    by (simp add: market_defs)
qed

section \<open>The notification\<close>

text \<open>
  C9, as amended. A PATCH /api/bids/:bidId/hire that is answered 200 has emitted exactly
  one event 'notification' to the room named by the hired bid's freelancerId, with the
  payload \<^verbatim>\<open>{id, gigId, price, status: 'hired'}\<close>: the bid's id, its gig's id and the
  bid's price (the payload has no freelancerId), and the store it returns holds the bid
  as hired. A failure of that dispatch does not undo the committed hire: with the emit
  throwing, the store after the call is the store the same call commits when nothing
  throws. A hire that is not answered 200 emits nothing, and POST /api/hire emits
  nothing at all.
\<close>

theorem notification_of_hire:
  "snd (snd (hire_post fault actor gigId bidId s)) = [] \<and>
   (fst (hire_patch fault actor bidId s) \<noteq> Ok200 () \<longrightarrow>
      snd (snd (hire_patch fault actor bidId s)) = []) \<and>
   (fst (hire_patch fault actor bidId s) = Ok200 () \<longrightarrow>
      (\<exists>b. findById_bid bidId (bids s) = Some b \<and>
           findById_bid bidId (bids (fst (snd (hire_patch fault actor bidId s))))
             = Some (b\<lparr>bid_status := Hired\<rparr>) \<and>
           snd (snd (hire_patch fault actor bidId s)) =
             [\<lparr> room = freelancerId b, event_name = ''notification'',
                payload = [(''id'', JStr bidId), (''gigId'', JStr (bid_gigId b)),
                           (''price'', JNum (price b)), (''status'', JStr ''hired'')] \<rparr>])) \<and>
   fst (snd (hire_patch (Some Emit) actor bidId s)) = fst (snd (hire_patch None actor bidId s))"
proof (intro conjI impI)
  show "snd (snd (hire_post fault actor gigId bidId s)) = []"
    by (simp add: hire_post_def split: sum.splits)
next
  assume "fst (hire_patch fault actor bidId s) \<noteq> Ok200 ()"
  then show "snd (snd (hire_patch fault actor bidId s)) = []"
    by (auto simp: hire_patch_def split: sum.splits prod.splits if_splits)
next
  assume ok: "fst (hire_patch fault actor bidId s) = Ok200 ()"
  obtain s' evs where r: "hire_patch fault actor bidId s = (Ok200 (), s', evs)"
    using ok by (cases "hire_patch fault actor bidId s") auto
  from hire_patch_Ok [OF r] obtain b g where
    b: "findById_bid bidId (bids s) = Some b" and
    g: "findById_gig (bid_gigId b) (gigs s) = Some g" and
    evs: "evs = [hired_notification b (g\<lparr>gig_status := Assigned\<rparr>)]" and
    s': "s' = \<lparr> gigs = save_gig (g\<lparr>gig_status := Assigned\<rparr>) (gigs s),
                bids = findByIdAndUpdate_bid bidId Hired
                         (updateMany_bids (bid_gigId b) Rejected (bids s)) \<rparr>"
    by blast
  have "findById_bid bidId (bids s') = Some (b\<lparr>bid_status := Hired\<rparr>)"
    by (simp add: s' findById_bid_findByIdAndUpdate findById_bid_updateMany b)
  moreover have "bid_id b = bidId" "gig_id g = bid_gigId b"
    using findById_bid_Some [OF b] findById_gig_Some [OF g] by simp_all
  ultimately show "\<exists>b. findById_bid bidId (bids s) = Some b \<and>
           findById_bid bidId (bids (fst (snd (hire_patch fault actor bidId s))))
             = Some (b\<lparr>bid_status := Hired\<rparr>) \<and>
           snd (snd (hire_patch fault actor bidId s)) =
             [\<lparr> room = freelancerId b, event_name = ''notification'',
                payload = [(''id'', JStr bidId), (''gigId'', JStr (bid_gigId b)),
                           (''price'', JNum (price b)), (''status'', JStr ''hired'')] \<rparr>]"
    using b by (simp add: r evs hired_notification_def)
next
  show "fst (snd (hire_patch (Some Emit) actor bidId s)) = fst (snd (hire_patch None actor bidId s))"
    by (simp add: hire_patch_def hire_patch_tx_Emit split: sum.splits prod.splits)
qed

theorem notification_of_hire_witness:
  "fst (hire_patch None U1 B1 market) = Ok200 () \<and>
   fst (snd (hire_patch None U1 B1 market)) = market_hired \<and>
   findById_bid B1 (bids market_hired) = Some (bid1\<lparr>bid_status := Hired\<rparr>) \<and>
   snd (snd (hire_patch None U1 B1 market)) =
     [\<lparr> room = F1, event_name = ''notification'',
        payload = [(''id'', JStr B1), (''gigId'', JStr G1),
                   (''price'', JNum 100), (''status'', JStr ''hired'')] \<rparr>] \<and>
   fst (snd (hire_patch (Some Emit) U1 B1 market)) = market_hired"
proof -
  have r: "hire_patch None U1 B1 market =
      (Ok200 (), market_hired, [hired_notification bid1 (gig1\<lparr>gig_status := Assigned\<rparr>)])"
    by (simp add: handlers db_calls market_defs ids)
  have b: "findById_bid B1 (bids market) = Some bid1"
    by (simp add: db_calls market_defs ids)
  show ?thesis
    using notification_of_hire [of None U1 G1 B1 market] r b
    by (simp add: market_defs)
qed

text \<open>
  C9 as stated fails: the event of the successful hire of B1 has the keys id, gigId,
  price and status, neither bidId nor freelancerId; the successful POST /api/hire of B1
  emits no event; and with the emit throwing the hire of B1 is committed but the caller,
  who is answered 200 otherwise, is answered nothing.
\<close>

theorem notification_payload_counterexample:
  "fst (hire_patch None U1 B1 market) = Ok200 () \<and>
   map (\<lambda>e. map fst (payload e)) (snd (snd (hire_patch None U1 B1 market)))
     = [[''id'', ''gigId'', ''price'', ''status'']] \<and>
   fst (hire_post None U1 G1 B1 market) = Ok200 () \<and>
   snd (snd (hire_post None U1 G1 B1 market)) = [] \<and>
   hire_patch (Some Emit) U1 B1 market = (NoResponse, market_hired, [])"
  by (simp add: handlers db_calls market_defs ids hired_notification_def)

section \<open>The circuit breaker\<close>

lemma requestWithFallback_offline:
  "requestWithFallback True fetchFn fallbackFn = (fallbackFn, True, [CallFallback])"
  by (simp add: requestWithFallback_def)

lemma run_requests_offline:
  "run_requests True rs = (map (\<lambda>(fetchFn, fallbackFn). (fallbackFn, [CallFallback])) rs, True)"
  by (induction rs) (auto simp: requestWithFallback_offline)

lemma run_requests_append:
  "run_requests off (xs @ ys) =
     (fst (run_requests off xs) @ fst (run_requests (snd (run_requests off xs)) ys),
      snd (run_requests (snd (run_requests off xs)) ys))"
  by (induction xs arbitrary: off) (auto split: prod.splits)

text \<open>
  C10. Once the calls made so far have left \<^verbatim>\<open>isBackendOffline\<close> true, every later
  call of \<^verbatim>\<open>requestWithFallback\<close> returns what its fallback gives and does nothing but
  call the fallback (no fetch), and the flag is still true after any number of them.
\<close>

theorem offline_flag_is_never_reset:
  assumes "snd (run_requests off earlier) = True"
  shows "run_requests off (earlier @ later) =
           (fst (run_requests off earlier) @
              map (\<lambda>(fetchFn, fallbackFn). (fallbackFn, [CallFallback])) later,
            True)"
  using assms by (simp add: run_requests_append run_requests_offline)

theorem offline_flag_is_never_reset_witness:
  "snd (run_requests False [(Throws fetch_failed, Resolves (1::nat))]) = True \<and>
   run_requests False ([(Throws fetch_failed, Resolves (1::nat))] @ [(Resolves 7, Resolves 2), (Resolves 8, Throws no_session)])
   = ([(Resolves 1, [CallFetch, Warn, Sleep 200, CallFallback]),
       (Resolves 2, [CallFallback]), (Throws no_session, [CallFallback])], True)"
proof -
  have h: "snd (run_requests False [(Throws fetch_failed, Resolves (1::nat))]) = True"
    by (simp add: requestWithFallback_def is_client_error_def isNetworkError_def fetch_failed_def)
  show ?thesis
    using h offline_flag_is_never_reset [OF h, of "[(Resolves 7, Resolves 2), (Resolves 8, Throws no_session)]"]
    by (simp add: requestWithFallback_def is_client_error_def isNetworkError_def fetch_failed_def DELAY_def)
qed

end
